theory Spec2Isabelle
  imports Complex_Main
begin

section \<open>JavaScript numbers\<close>

text \<open>
  The view computes with JavaScript numbers. A finite number is modelled by a real
  (rounding of the binary representation is left out, and zero carries no sign); the
  three values a division by zero can produce are kept, so that an unguarded division
  stays visible in the model.
\<close>

datatype number = Fin real | NaN | PosInfinity | NegInfinity

fun isFinite :: "number \<Rightarrow> bool" where
  "isFinite (Fin _) = True"
| "isFinite _ = False"

fun num_sign :: "number \<Rightarrow> real" where
  "num_sign (Fin a) = sgn a"
| "num_sign PosInfinity = 1"
| "num_sign NegInfinity = - 1"
| "num_sign NaN = 0"

definition signed_infinity :: "real \<Rightarrow> number" where
  "signed_infinity s = (if s = 0 then NaN else if 0 < s then PosInfinity else NegInfinity)"

fun num_add :: "number \<Rightarrow> number \<Rightarrow> number" where
  "num_add (Fin a) (Fin b) = Fin (a + b)"
| "num_add NaN _ = NaN"
| "num_add _ NaN = NaN"
| "num_add PosInfinity NegInfinity = NaN"
| "num_add NegInfinity PosInfinity = NaN"
| "num_add PosInfinity _ = PosInfinity"
| "num_add _ PosInfinity = PosInfinity"
| "num_add NegInfinity _ = NegInfinity"
| "num_add _ NegInfinity = NegInfinity"

fun num_neg :: "number \<Rightarrow> number" where
  "num_neg (Fin a) = Fin (- a)"
| "num_neg NaN = NaN"
| "num_neg PosInfinity = NegInfinity"
| "num_neg NegInfinity = PosInfinity"

fun num_mul :: "number \<Rightarrow> number \<Rightarrow> number" where
  "num_mul (Fin a) (Fin b) = Fin (a * b)"
| "num_mul NaN _ = NaN"
| "num_mul _ NaN = NaN"
| "num_mul x y = signed_infinity (num_sign x * num_sign y)"

text \<open>
  Division never raises: a zero divisor gives \<open>NaN\<close> for a zero dividend and an infinity
  otherwise; a finite dividend over an infinity gives zero.
\<close>

fun num_div :: "number \<Rightarrow> number \<Rightarrow> number" where
  "num_div (Fin a) (Fin b) =
     (if b \<noteq> 0 then Fin (a / b) else signed_infinity (sgn a))"
| "num_div NaN _ = NaN"
| "num_div _ NaN = NaN"
| "num_div (Fin a) _ = Fin 0"
| "num_div x (Fin b) = signed_infinity (num_sign x * (if b < 0 then - 1 else 1))"
| "num_div _ _ = NaN"

fun num_less :: "number \<Rightarrow> number \<Rightarrow> bool" where
  "num_less (Fin a) (Fin b) = (a < b)"
| "num_less NaN _ = False"
| "num_less _ NaN = False"
| "num_less NegInfinity y = (y \<noteq> NegInfinity)"
| "num_less x PosInfinity = (x \<noteq> PosInfinity)"
| "num_less _ _ = False"

fun num_less_eq :: "number \<Rightarrow> number \<Rightarrow> bool" where
  "num_less_eq NaN _ = False"
| "num_less_eq _ NaN = False"
| "num_less_eq x y = (x = y \<or> num_less x y)"

instantiation number :: "{zero, plus, minus, uminus, times, inverse, ord}"
begin

definition zero_number :: number where
  "zero_number = Fin 0"

definition plus_number :: "number \<Rightarrow> number \<Rightarrow> number" where
  "plus_number x y = num_add x y"

definition uminus_number :: "number \<Rightarrow> number" where
  "uminus_number x = num_neg x"

definition minus_number :: "number \<Rightarrow> number \<Rightarrow> number" where
  "minus_number x y = num_add x (num_neg y)"

definition times_number :: "number \<Rightarrow> number \<Rightarrow> number" where
  "times_number x y = num_mul x y"

definition divide_number :: "number \<Rightarrow> number \<Rightarrow> number" where
  "divide_number x y = num_div x y"

definition inverse_number :: "number \<Rightarrow> number" where
  "inverse_number x = num_div (Fin 1) x"

definition less_number :: "number \<Rightarrow> number \<Rightarrow> bool" where
  "less_number x y = num_less x y"

definition less_eq_number :: "number \<Rightarrow> number \<Rightarrow> bool" where
  "less_eq_number x y = num_less_eq x y"

instance ..

end

text \<open>\<^verbatim>\<open>Math.min\<close> and \<^verbatim>\<open>Math.max\<close> of two arguments: \<open>NaN\<close> if either is.\<close>

definition Math_min :: "number \<Rightarrow> number \<Rightarrow> number" where
  "Math_min x y = (if x = NaN \<or> y = NaN then NaN else if y < x then y else x)"

definition Math_max :: "number \<Rightarrow> number \<Rightarrow> number" where
  "Math_max x y = (if x = NaN \<or> y = NaN then NaN else if x < y then y else x)"

text \<open>Truthiness of a number, and \<^verbatim>\<open>x || 0\<close>.\<close>

fun truthy :: "number \<Rightarrow> bool" where
  "truthy (Fin a) = (a \<noteq> 0)"
| "truthy NaN = False"
| "truthy _ = True"

definition or_zero :: "number \<Rightarrow> number" where
  "or_zero x = (if truthy x then x else Fin 0)"

text \<open>
  \<^verbatim>\<open>Number(v)\<close> of a value read from a result row: the column value when the row was
  found, \<^verbatim>\<open>undefined\<close> (hence \<open>NaN\<close>) when \<^verbatim>\<open>find\<close> returned nothing.
\<close>

fun Number :: "real option \<Rightarrow> number" where
  "Number (Some v) = Fin v"
| "Number None = NaN"

section \<open>Plugin types\<close>

datatype allocation_type = percentage | fixed

record FundAllocation =
  account_id :: string
  allocation_type :: allocation_type
  allocation_value :: number

datatype calculation_method = mean | median | trimmed_mean

datatype runway_status = on_track | warning | critical

text \<open>
  \<^verbatim>\<open>EmergencyFundConfig\<close>. A text column that may be \<^verbatim>\<open>null\<close> is an option; the JSON
  lists are carried decoded.
\<close>

record EmergencyFundConfig =
  config_id :: string
  linked_goal_id :: "string option"
  target_months :: "number option"
  fund_allocations :: "FundAllocation list"
  expense_account_ids :: "string list"
  excluded_tags :: "string list"
  lookback_months :: int
  calculation_method :: calculation_method
  config_created_at :: string
  config_updated_at :: string

text \<open>
  \<^verbatim>\<open>Goal\<close>. The \<^verbatim>\<open>allocations\<close> column is a JSON text; it is carried decoded, \<open>None\<close>
  standing for a \<^verbatim>\<open>null\<close> or empty text (the falsy values the view tests for).
\<close>

record Goal =
  goal_id :: string
  name :: string
  target_amount :: number
  allocations :: "FundAllocation list option"
  icon :: string
  active :: bool

record RunwayData =
  fundBalance :: number
  monthlyExpenses :: number
  monthsOfRunway :: number
  targetMonths :: number
  targetAmount :: number
  progressPercent :: number
  remainingToTarget :: number
  status :: runway_status

text \<open>Truthiness of a nullable text: \<^verbatim>\<open>null\<close> and the empty text are falsy.\<close>

fun text_truthy :: "string option \<Rightarrow> bool" where
  "text_truthy None = False"
| "text_truthy (Some s) = (s \<noteq> [])"

text \<open>\<^verbatim>\<open>goals.find((g) => g.id === config.linked_goal_id)\<close>\<close>

definition find_goal :: "Goal list \<Rightarrow> string option \<Rightarrow> Goal option" where
  "find_goal goals gid = find (\<lambda>g. Some (goal_id g) = gid) goals"

section \<open>Fund balance from allocations\<close>

text \<open>
  \<^verbatim>\<open>balanceRows.find((r) => r[0] === alloc.account_id)?.[1]\<close>: the balance column of
  the first row for the account.
\<close>

fun find_balance :: "(string \<times> real) list \<Rightarrow> string \<Rightarrow> real option" where
  "find_balance [] k = None"
| "find_balance (r # rs) k = (if fst r = k then Some (snd r) else find_balance rs k)"

text \<open>One turn of the loop over the allocations, \<open>acc\<close> being the running fund balance.\<close>

definition add_allocation :: "(string \<times> real) list \<Rightarrow> number \<Rightarrow> FundAllocation \<Rightarrow> number" where
  "add_allocation balanceRows acc alloc =
     (let accountBalance = or_zero (Number (find_balance balanceRows (account_id alloc)))
      in if allocation_type alloc = percentage
         then acc + (accountBalance * allocation_value alloc) / Fin 100
         else acc + Math_min (allocation_value alloc) accountBalance)"

text \<open>
  \<open>balanceRows\<close> is the answer of the data source to the balance query of the function
  (one row per account, the balance already coalesced to a number by the query). The
  query itself is \<open>balanceQuery\<close> below, and \<open>getFundBalance\<close> puts the two together.
\<close>

definition calculateFundBalanceFromAllocations ::
  "FundAllocation list \<Rightarrow> (string \<times> real) list \<Rightarrow> number" where
  "calculateFundBalanceFromAllocations allocs balanceRows =
     (if length allocs = 0 then Fin 0
      else foldl (add_allocation balanceRows) (Fin 0) allocs)"

section \<open>The runway evaluation\<close>

text \<open>
  The arithmetic of \<^verbatim>\<open>calculateRunway\<close> once the fund balance and the monthly
  expenses are known. First the target in months, with the new value of the view's
  \<^verbatim>\<open>autoTargetMonths\<close>: the variable is assigned only where the source assigns it.
\<close>

definition resolveTarget ::
  "EmergencyFundConfig \<Rightarrow> Goal list \<Rightarrow> bool \<Rightarrow> number option \<Rightarrow> number
     \<Rightarrow> number \<times> number option" where
  "resolveTarget cfg gs override auto expenses =
     (let months = (case target_months cfg of None \<Rightarrow> Fin 6 | Some t \<Rightarrow> t)
      in if text_truthy (linked_goal_id cfg)
         then (case find_goal gs (linked_goal_id cfg) of
                 Some goal \<Rightarrow>
                   if Fin 0 < expenses
                   then (let auto' = target_amount goal / expenses
                         in (if \<not> override \<and> target_months cfg = None then auto' else months,
                             Some auto'))
                   else (months, auto)
               | None \<Rightarrow> (months, auto))
         else (months, None))"

definition runwayPercent :: "number \<Rightarrow> number \<Rightarrow> number" where
  "runwayPercent runway months =
     (if Fin 0 < months then (runway / months) * Fin 100 else Fin 0)"

definition statusOf :: "number \<Rightarrow> runway_status" where
  "statusOf percent =
     (if percent < Fin 80
      then (if percent < Fin 50 then critical else warning)
      else on_track)"

text \<open>
  The result object, from the fund balance \<open>balance\<close>, the monthly expenses \<open>expenses\<close>
  and the target \<open>months\<close>.
\<close>

definition runwayDataOf :: "number \<Rightarrow> number \<Rightarrow> number \<Rightarrow> RunwayData" where
  "runwayDataOf balance expenses months =
     (let runway = (if Fin 0 < expenses then balance / expenses else Fin 0);
          amount = expenses * months;
          progress = (if Fin 0 < amount then (balance / amount) * Fin 100 else Fin 0);
          remaining = Math_max (Fin 0) (amount - balance)
      in \<lparr>fundBalance = balance,
          monthlyExpenses = expenses,
          monthsOfRunway = runway,
          targetMonths = months,
          targetAmount = amount,
          progressPercent = progress,
          remainingToTarget = remaining,
          status = statusOf (runwayPercent runway months)\<rparr>)"

text \<open>
  Lines 437 to 480 of \<^verbatim>\<open>calculateRunway\<close>: the result object and the new
  \<^verbatim>\<open>autoTargetMonths\<close>.
\<close>

definition evaluateRunway ::
  "EmergencyFundConfig \<Rightarrow> Goal list \<Rightarrow> bool \<Rightarrow> number option \<Rightarrow> number \<Rightarrow> number
     \<Rightarrow> RunwayData \<times> number option" where
  "evaluateRunway cfg gs override auto balance expenses =
     (let (months, auto') = resolveTarget cfg gs override auto expenses
      in (runwayDataOf balance expenses months, auto'))"

section \<open>The data source\<close>

text \<open>
  The view reads and writes through SQL statements. A statement is modelled by what it
  means on the tables. Three ways in which the database rejects a statement are
  computed: a text put between single quotes without escaping that itself holds a single
  quote (the statement is then not the one intended), a value that does not fit its
  column, and a key that is already taken.
\<close>

datatype sql_error = MalformedStatement | ConversionError | ConstraintViolation

definition quotable :: "string \<Rightarrow> bool" where
  "quotable s = (CHR 0x27 \<notin> set s)"

text \<open>A JavaScript number written into a statement is a numeric literal only if finite.\<close>

fun sql_number :: "number \<Rightarrow> sql_error + real" where
  "sql_number (Fin x) = Inr x"
| "sql_number _ = Inl MalformedStatement"

definition round_half_away :: "real \<Rightarrow> int" where
  "round_half_away x = (if 0 \<le> x then \<lfloor>x + 1 / 2\<rfloor> else - \<lfloor>- x + 1 / 2\<rfloor>)"

text \<open>\<^verbatim>\<open>ROUND(x, s)\<close>\<close>

definition sql_round :: "nat \<Rightarrow> real \<Rightarrow> real" where
  "sql_round s x = real_of_int (round_half_away (x * 10 ^ s)) / 10 ^ s"

text \<open>
  Storing a number in a \<^verbatim>\<open>DECIMAL(width, scale)\<close> column rounds it to the scale and
  fails when the rounded value needs more than \<open>width\<close> digits.
\<close>

definition cast_decimal :: "nat \<Rightarrow> nat \<Rightarrow> real \<Rightarrow> sql_error + real" where
  "cast_decimal width scale x =
     (let n = round_half_away (x * 10 ^ scale)
      in if \<bar>n\<bar> < 10 ^ width then Inr (real_of_int n / 10 ^ scale)
         else Inl ConversionError)"


text \<open>Division in SQL: \<^verbatim>\<open>NULL\<close> for a zero divisor.\<close>

definition sql_div :: "real \<Rightarrow> real \<Rightarrow> real option" where
  "sql_div x y = (if y = 0 then None else Some (x / y))"

text \<open>\<^verbatim>\<open>SUM\<close> and \<^verbatim>\<open>AVG\<close> are \<^verbatim>\<open>NULL\<close> over no rows.\<close>

definition sql_sum :: "real list \<Rightarrow> real option" where
  "sql_sum xs = (if xs = [] then None else Some (sum_list xs))"

definition sql_avg :: "real list \<Rightarrow> real option" where
  "sql_avg xs = (if xs = [] then None else Some (sum_list xs / real (length xs)))"

text \<open>
  \<^verbatim>\<open>PERCENTILE_CONT(p) WITHIN GROUP (ORDER BY x)\<close>: over the sorted values, the
  position \<open>p * (n - 1)\<close> is interpolated linearly between its two neighbours.
\<close>

definition percentile_cont :: "real \<Rightarrow> real list \<Rightarrow> real option" where
  "percentile_cont p xs =
     (if xs = [] then None
      else (let sorted = sort xs;
                rn = p * real (length xs - 1);
                lo = nat \<lfloor>rn\<rfloor>;
                hi = nat \<lceil>rn\<rceil>
            in Some (sorted ! lo + (rn - real lo) * (sorted ! hi - sorted ! lo))))"

text \<open>\<^verbatim>\<open>x BETWEEN a AND b\<close> as a filter: a \<^verbatim>\<open>NULL\<close> bound lets nothing pass.\<close>

fun sql_between :: "real \<Rightarrow> real option \<Rightarrow> real option \<Rightarrow> bool" where
  "sql_between x (Some a) (Some b) = (a \<le> x \<and> x \<le> b)"
| "sql_between x _ _ = False"

text \<open>
  A calendar date, and a number that orders calendar dates (months from 1 to 12, days
  from 1 to 31).
\<close>

datatype date = Date (date_year: int) (date_month: nat) (date_day: nat)

definition date_key :: "date \<Rightarrow> int" where
  "date_key d = (date_year d * 12 + int (date_month d)) * 32 + int (date_day d)"

text \<open>\<^verbatim>\<open>DATE_TRUNC('month', d)\<close>\<close>

definition month_of :: "date \<Rightarrow> date" where
  "month_of d = Date (date_year d) (date_month d) 1"

text \<open>
  A row of \<^verbatim>\<open>transactions\<close>. The tag list may be \<^verbatim>\<open>NULL\<close>, and so may an element.
\<close>

record transaction_row =
  tx_account_id :: string
  tx_amount :: real
  tx_tags :: "string option list option"
  transaction_date :: date

record EmergencyFundSnapshot =
  snapshot_id :: string
  snapshot_date :: date
  fund_balance :: real
  monthly_expenses :: real
  months_of_runway :: real
  snapshot_notes :: "string option"
  created_at :: string

text \<open>
  A row of \<^verbatim>\<open>sys_plugin_emergency_fund_config\<close>. Every column but the key may be
  \<^verbatim>\<open>NULL\<close>; a JSON column is carried decoded.
\<close>

record config_row =
  row_id :: string
  row_linked_goal_id :: "string option"
  row_target_months :: "real option"
  row_target_months_override :: "bool option"
  row_fund_allocations :: "FundAllocation list option"
  row_expense_account_ids :: "string list option"
  row_excluded_tags :: "string list option"
  row_lookback_months :: "int option"
  row_calculation_method :: "calculation_method option"
  row_created_at :: string
  row_updated_at :: string

text \<open>
  What the view sees of the database: its two tables, the accounts with their current
  balance (the rows of the balance query before its \<^verbatim>\<open>IN\<close> filter), the transactions,
  and the database's \<^verbatim>\<open>CURRENT_DATE - INTERVAL 'n' MONTH\<close>.
\<close>

record database =
  config_table :: "config_row list"
  snapshots_table :: "EmergencyFundSnapshot list"
  account_balances :: "(string \<times> real) list"
  transactions :: "transaction_row list"
  months_ago :: "int \<Rightarrow> date"

subsection \<open>The queries of \<^verbatim>\<open>calculateRunway\<close>\<close>

definition balanceQuery :: "database \<Rightarrow> string list \<Rightarrow> sql_error + (string \<times> real) list" where
  "balanceQuery db accountIds =
     (if list_all quotable accountIds
      then Inr (filter (\<lambda>r. fst r \<in> set accountIds) (account_balances db))
      else Inl MalformedStatement)"

text \<open>
  \<^verbatim>\<open>AND NOT (list_contains(tags, 't1') OR ...)\<close>, present only when a tag is excluded.
  On a \<^verbatim>\<open>NULL\<close> tag list every \<^verbatim>\<open>list_contains\<close> is \<^verbatim>\<open>NULL\<close>, and so is the condition:
  the row does not pass.
\<close>

definition tagFilter :: "string list \<Rightarrow> transaction_row \<Rightarrow> bool" where
  "tagFilter excluded t =
     (if length excluded > 0
      then (case tx_tags t of
              None \<Rightarrow> False
            | Some ts \<Rightarrow> \<not> list_ex (\<lambda>tag. Some tag \<in> set ts) excluded)
      else True)"

text \<open>The \<^verbatim>\<open>WHERE\<close> clause shared by the expense query and the breakdown query.\<close>

definition expense_rows :: "database \<Rightarrow> EmergencyFundConfig \<Rightarrow> transaction_row list" where
  "expense_rows db cfg =
     filter (\<lambda>t. tx_amount t < 0
                \<and> tx_account_id t \<in> set (expense_account_ids cfg)
                \<and> tagFilter (excluded_tags cfg) t
                \<and> date_key (months_ago db (lookback_months cfg)) \<le> date_key (transaction_date t))
       (transactions db)"

text \<open>The \<^verbatim>\<open>monthly_totals\<close> of the expense query: one total per month that has a row.\<close>

definition monthly_totals :: "transaction_row list \<Rightarrow> real list" where
  "monthly_totals rows =
     map (\<lambda>m. \<Sum>t\<leftarrow>filter (\<lambda>t. month_of (transaction_date t) = m) rows. \<bar>tx_amount t\<bar>)
       (remdups (map (\<lambda>t. month_of (transaction_date t)) rows))"

text \<open>The aggregate the expense query selects, by calculation method.\<close>

fun monthly_avg :: "calculation_method \<Rightarrow> real list \<Rightarrow> real option" where
  "monthly_avg median totals = percentile_cont (1 / 2) totals"
| "monthly_avg trimmed_mean totals =
     sql_avg (filter (\<lambda>total. sql_between total (percentile_cont (1 / 10) totals)
                                               (percentile_cont (9 / 10) totals)) totals)"
| "monthly_avg mean totals = sql_avg totals"

text \<open>\<^verbatim>\<open>expenseRows[0]?.[0] || 0\<close>\<close>

fun first_cell_or_zero :: "real option \<Rightarrow> number" where
  "first_cell_or_zero None = Fin 0"
| "first_cell_or_zero (Some v) = or_zero (Fin v)"

definition expenseQuery :: "database \<Rightarrow> EmergencyFundConfig \<Rightarrow> sql_error + real option" where
  "expenseQuery db cfg =
     (if list_all quotable (expense_account_ids cfg)
      then Inr (monthly_avg (calculation_method cfg) (monthly_totals (expense_rows db cfg)))
      else Inl MalformedStatement)"

subsection \<open>The breakdown query\<close>

text \<open>
  \<^verbatim>\<open>COALESCE(UNNEST(tags), 'Untagged')\<close> gives one row per element of the tag list, and
  none for an empty or \<^verbatim>\<open>NULL\<close> list.
\<close>

definition tagged_expenses :: "transaction_row list \<Rightarrow> (string \<times> real) list" where
  "tagged_expenses rows =
     concat (map (\<lambda>t. case tx_tags t of
                         None \<Rightarrow> []
                       | Some ts \<Rightarrow>
                           map (\<lambda>tag. (case tag of None \<Rightarrow> ''Untagged'' | Some s \<Rightarrow> s,
                                       \<bar>tx_amount t\<bar>)) ts) rows)"

record breakdown_entry =
  tag :: string
  amount :: "real option"
  percent :: "real option"

definition tag_total :: "(string \<times> real) list \<Rightarrow> string \<Rightarrow> real" where
  "tag_total tagged k = (\<Sum>r\<leftarrow>filter (\<lambda>r. fst r = k) tagged. snd r)"

text \<open>One row of the answer, for the group of tag \<open>k\<close>.\<close>

definition breakdown_row :: "int \<Rightarrow> (string \<times> real) list \<Rightarrow> string \<Rightarrow> breakdown_entry" where
  "breakdown_row lookback tagged k =
     \<lparr>tag = k,
      amount = map_option (sql_round 2) (sql_div (tag_total tagged k) (real_of_int lookback)),
      percent =
        map_option (\<lambda>q. sql_round 1 (q * 100))
          (case sql_sum (map snd tagged) of
             None \<Rightarrow> None
           | Some grand_total \<Rightarrow> sql_div (tag_total tagged k) grand_total)\<rparr>"

text \<open>
  \<^verbatim>\<open>ORDER BY monthly_avg DESC\<close>. Rows of equal amount stay in the order of the groups
  (the database leaves their order open).
\<close>

definition order_key :: "breakdown_entry \<Rightarrow> real" where
  "order_key e = (case amount e of None \<Rightarrow> 0 | Some a \<Rightarrow> - a)"

definition breakdownQuery :: "database \<Rightarrow> EmergencyFundConfig \<Rightarrow> sql_error + breakdown_entry list" where
  "breakdownQuery db cfg =
     (if list_all quotable (expense_account_ids cfg)
      then (let tagged = tagged_expenses (expense_rows db cfg)
            in Inr (sort_key order_key
                     (map (breakdown_row (lookback_months cfg) tagged)
                        (remdups (map fst tagged)))))
      else Inl MalformedStatement)"

section \<open>The view\<close>

datatype toast = ToastSuccess string | ToastError string | ToastWarning string | ToastInfo string

text \<open>
  The state of the view that the functions below read or write, and the toasts shown so
  far. (The account list, the tag suggestions and the selection of the snapshot table
  are not touched by them.)
\<close>

record view =
  config :: "EmergencyFundConfig option"
  goals :: "Goal list"
  snapshots :: "EmergencyFundSnapshot list"
  runwayData :: "RunwayData option"
  expenseBreakdown :: "breakdown_entry list"
  autoTargetMonths :: "number option"
  showSettings :: bool
  showSetup :: bool
  formLinkedGoalId :: "string option"
  formTargetMonths :: number
  formTargetMonthsOverride :: bool
  formFundAllocations :: "FundAllocation list"
  formExpenseAccountIds :: "string list"
  formExcludedTags :: "string list"
  formLookbackMonths :: int
  formCalculationMethod :: calculation_method
  toasts :: "toast list"

fun sql_bind :: "sql_error + 'a \<Rightarrow> ('a \<Rightarrow> sql_error + 'b) \<Rightarrow> sql_error + 'b" where
  "sql_bind (Inl e) f = Inl e"
| "sql_bind (Inr x) f = f x"

subsection \<open>Loading\<close>

text \<open>
  \<^verbatim>\<open>loadConfig\<close>: the first row of the configuration table, if there is one, becomes
  the configuration and fills the settings form.
\<close>

definition config_of_row :: "config_row \<Rightarrow> EmergencyFundConfig" where
  "config_of_row r =
     \<lparr>config_id = row_id r,
      linked_goal_id = row_linked_goal_id r,
      target_months = map_option Fin (row_target_months r),
      fund_allocations = (case row_fund_allocations r of None \<Rightarrow> [] | Some a \<Rightarrow> a),
      expense_account_ids = (case row_expense_account_ids r of None \<Rightarrow> [] | Some a \<Rightarrow> a),
      excluded_tags = (case row_excluded_tags r of None \<Rightarrow> [] | Some a \<Rightarrow> a),
      lookback_months =
        (case row_lookback_months r of None \<Rightarrow> 6 | Some n \<Rightarrow> if n = 0 then 6 else n),
      calculation_method = (case row_calculation_method r of None \<Rightarrow> mean | Some m \<Rightarrow> m),
      config_created_at = row_created_at r,
      config_updated_at = row_updated_at r\<rparr>"

definition loadConfig :: "database \<Rightarrow> view \<Rightarrow> view" where
  "loadConfig db st =
     (case config_table db of
        [] \<Rightarrow> st
      | r # _ \<Rightarrow>
          (let cfg = config_of_row r
           in st\<lparr>config := Some cfg,
                 formLinkedGoalId := linked_goal_id cfg,
                 formTargetMonths := (case target_months cfg of None \<Rightarrow> Fin 6 | Some t \<Rightarrow> t),
                 formTargetMonthsOverride :=
                   (case row_target_months_override r of None \<Rightarrow> False | Some b \<Rightarrow> b),
                 formFundAllocations := fund_allocations cfg,
                 formExpenseAccountIds := expense_account_ids cfg,
                 formExcludedTags := excluded_tags cfg,
                 formLookbackMonths := lookback_months cfg,
                 formCalculationMethod := calculation_method cfg\<rparr>))"

text \<open>\<^verbatim>\<open>loadSnapshots\<close>: the twelve most recent snapshots, most recent first.\<close>

definition loadSnapshots :: "database \<Rightarrow> view \<Rightarrow> view" where
  "loadSnapshots db st =
     st\<lparr>snapshots :=
          take 12 (sort_key (\<lambda>r. - date_key (snapshot_date r)) (snapshots_table db))\<rparr>"

definition loadExpenseBreakdown :: "database \<Rightarrow> view \<Rightarrow> view" where
  "loadExpenseBreakdown db st =
     (case config st of
        None \<Rightarrow> st\<lparr>expenseBreakdown := []\<rparr>
      | Some cfg \<Rightarrow>
          if length (expense_account_ids cfg) = 0 then st\<lparr>expenseBreakdown := []\<rparr>
          else (case breakdownQuery db cfg of
                  Inl e \<Rightarrow> st\<lparr>expenseBreakdown := []\<rparr>
                | Inr rows \<Rightarrow> st\<lparr>expenseBreakdown := rows\<rparr>))"

subsection \<open>\<^verbatim>\<open>calculateRunway\<close>\<close>

text \<open>The allocations that count: those of the linked goal, or else the manual ones.\<close>

definition allocationsToUse :: "EmergencyFundConfig \<Rightarrow> Goal list \<Rightarrow> FundAllocation list" where
  "allocationsToUse cfg gs =
     (if text_truthy (linked_goal_id cfg)
      then (case find_goal gs (linked_goal_id cfg) of
              None \<Rightarrow> []
            | Some goal \<Rightarrow> (case allocations goal of None \<Rightarrow> [] | Some a \<Rightarrow> a))
      else fund_allocations cfg)"

text \<open>
  The call of \<^verbatim>\<open>calculateFundBalanceFromAllocations\<close>; the balance query is issued only
  for a nonempty allocation list.
\<close>

definition getFundBalance :: "database \<Rightarrow> EmergencyFundConfig \<Rightarrow> Goal list \<Rightarrow> sql_error + number" where
  "getFundBalance db cfg gs =
     (let allocs = allocationsToUse cfg gs
      in if length allocs = 0 then Inr (calculateFundBalanceFromAllocations allocs [])
         else sql_bind (balanceQuery db (map account_id allocs))
                (\<lambda>balanceRows. Inr (calculateFundBalanceFromAllocations allocs balanceRows)))"

definition getMonthlyExpenses :: "database \<Rightarrow> EmergencyFundConfig \<Rightarrow> sql_error + number" where
  "getMonthlyExpenses db cfg =
     (if length (expense_account_ids cfg) > 0
      then sql_bind (expenseQuery db cfg) (\<lambda>cell. Inr (first_cell_or_zero cell))
      else Inr (Fin 0))"

definition calculateRunway :: "database \<Rightarrow> view \<Rightarrow> view" where
  "calculateRunway db st =
     (case config st of
        None \<Rightarrow> st
      | Some cfg \<Rightarrow>
          (case sql_bind (getFundBalance db cfg (goals st))
                  (\<lambda>balance. sql_bind (getMonthlyExpenses db cfg)
                     (\<lambda>expenses. Inr (balance, expenses))) of
             Inl e \<Rightarrow> st\<lparr>toasts := toasts st @ [ToastError ''Failed to calculate runway'']\<rparr>
           | Inr (balance, expenses) \<Rightarrow>
               (let (r, auto') =
                      evaluateRunway cfg (goals st) (formTargetMonthsOverride st)
                        (autoTargetMonths st) balance expenses;
                    st1 = st\<lparr>autoTargetMonths := auto', runwayData := Some r\<rparr>;
                    st2 = (if status r \<noteq> on_track
                           then st1\<lparr>toasts := toasts st1 @ [ToastWarning ''Runway alert'']\<rparr>
                           else st1)
                in loadExpenseBreakdown db st2)))"

subsection \<open>\<^verbatim>\<open>saveConfig\<close>\<close>










subsection \<open>\<^verbatim>\<open>addSnapshot\<close>\<close>

text \<open>
  The \<^verbatim>\<open>INSERT ... ON CONFLICT (snapshot_date) DO UPDATE\<close> on date \<open>today\<close>. The three
  numbers are written into the statement and converted to the columns
  (\<^verbatim>\<open>DECIMAL(15,2)\<close>, \<^verbatim>\<open>DECIMAL(15,2)\<close>, \<^verbatim>\<open>DECIMAL(4,1)\<close>). A new row takes the
  fresh \<open>uuid\<close> and the time \<open>now\<close> from the column defaults.
\<close>

definition snapshot_values :: "RunwayData \<Rightarrow> sql_error + real \<times> real \<times> real" where
  "snapshot_values rd =
     sql_bind (sql_bind (sql_number (fundBalance rd)) (cast_decimal 15 2)) (\<lambda>fb.
     sql_bind (sql_bind (sql_number (monthlyExpenses rd)) (cast_decimal 15 2)) (\<lambda>me.
     sql_bind (sql_bind (sql_number (monthsOfRunway rd)) (cast_decimal 4 1)) (\<lambda>mr.
       Inr (fb, me, mr))))"

definition upsertSnapshot ::
  "date \<Rightarrow> string \<Rightarrow> string \<Rightarrow> RunwayData \<Rightarrow> EmergencyFundSnapshot list
     \<Rightarrow> sql_error + EmergencyFundSnapshot list" where
  "upsertSnapshot today uuid now rd table =
     sql_bind (snapshot_values rd) (\<lambda>(fb, me, mr).
       if list_ex (\<lambda>r. snapshot_date r = today) table
       then Inr (map (\<lambda>r. if snapshot_date r = today
                           then r\<lparr>fund_balance := fb, monthly_expenses := me,
                                  months_of_runway := mr\<rparr>
                           else r) table)
       else if list_ex (\<lambda>r. snapshot_id r = uuid) table then Inl ConstraintViolation
       else Inr (table @
              [\<lparr>snapshot_id = uuid, snapshot_date = today, fund_balance = fb,
                monthly_expenses = me, months_of_runway = mr, snapshot_notes = None,
                created_at = now\<rparr>]))"

definition addSnapshot ::
  "date \<Rightarrow> string \<Rightarrow> string \<Rightarrow> database \<Rightarrow> view \<Rightarrow> view \<times> database" where
  "addSnapshot today uuid now db st =
     (case runwayData st of
        None \<Rightarrow> (st, db)
      | Some rd \<Rightarrow>
          (case upsertSnapshot today uuid now rd (snapshots_table db) of
             Inl e \<Rightarrow> (st\<lparr>toasts := toasts st @ [ToastError ''Failed to add snapshot'']\<rparr>, db)
           | Inr table \<Rightarrow>
               (let db' = db\<lparr>snapshots_table := table\<rparr>;
                    st1 = loadSnapshots db' st
                in (st1\<lparr>toasts := toasts st1 @ [ToastSuccess ''Snapshot added'']\<rparr>, db'))))"

subsection \<open>\<^verbatim>\<open>quickExcludeTag\<close>\<close>

definition updateExcludedTags ::
  "string \<Rightarrow> string \<Rightarrow> string list \<Rightarrow> config_row list \<Rightarrow> sql_error + config_row list" where
  "updateExcludedTags now cid newExcludedTags table =
     (if list_all quotable newExcludedTags \<and> quotable cid
      then Inr (map (\<lambda>r. if row_id r = cid
                          then r\<lparr>row_excluded_tags := Some newExcludedTags,
                                 row_updated_at := now\<rparr>
                          else r) table)
      else Inl MalformedStatement)"

definition quickExcludeTag :: "string \<Rightarrow> string \<Rightarrow> database \<Rightarrow> view \<Rightarrow> view \<times> database" where
  "quickExcludeTag now t db st =
     (case config st of
        None \<Rightarrow> (st, db)
      | Some cfg \<Rightarrow>
          if t = ''Untagged'' then (st, db)
          else (let newExcludedTags = excluded_tags cfg @ [t]
                in case updateExcludedTags now (config_id cfg) newExcludedTags (config_table db) of
                     Inl e \<Rightarrow>
                       (st\<lparr>toasts := toasts st @ [ToastError ''Failed to exclude tag'']\<rparr>, db)
                   | Inr table \<Rightarrow>
                       (let db' = db\<lparr>config_table := table\<rparr>;
                            st1 = calculateRunway db' (loadConfig db' st)
                        in (st1\<lparr>toasts := toasts st1
                                   @ [ToastInfo (''Excluded '' @ [CHR 0x22] @ t @ [CHR 0x22]
                                                 @ '' from expenses'')]\<rparr>,
                            db'))))"

section \<open>The specification's wording\<close>

subsection \<open>The resolver as the specification words it\<close>

datatype AllocationRule = Percentage string real | Fixed string real

definition balance_or_zero :: "(string \<rightharpoonup> real) \<Rightarrow> string \<Rightarrow> real" where
  "balance_or_zero balances a = (case balances a of None \<Rightarrow> 0 | Some b \<Rightarrow> b)"

fun contribution :: "(string \<rightharpoonup> real) \<Rightarrow> AllocationRule \<Rightarrow> real" where
  "contribution balances (Percentage a v) = balance_or_zero balances a * v / 100"
| "contribution balances (Fixed a v) = min v (balance_or_zero balances a)"


text \<open>The rule an allocation with a finite value stands for.\<close>

definition rule_of :: "FundAllocation \<Rightarrow> AllocationRule option" where
  "rule_of alloc =
     (case allocation_value alloc of
        Fin v \<Rightarrow> Some (case allocation_type alloc of
                          percentage \<Rightarrow> Percentage (account_id alloc) v
                        | fixed \<Rightarrow> Fixed (account_id alloc) v)
      | _ \<Rightarrow> None)"

fun rules_of :: "FundAllocation list \<Rightarrow> AllocationRule list option" where
  "rules_of [] = Some []"
| "rules_of (a # as) =
     (case rule_of a of None \<Rightarrow> None
      | Some r \<Rightarrow> (case rules_of as of None \<Rightarrow> None | Some rs \<Rightarrow> Some (r # rs)))"

subsection \<open>The runway percentage as the specification words it\<close>


subsection \<open>The trimmed mean as the specification words it\<close>




subsection \<open>The percentages of a breakdown\<close>



section \<open>Example data\<close>

definition example_config :: EmergencyFundConfig where
  "example_config =
     \<lparr>config_id = ''cfg-1'', linked_goal_id = None, target_months = Some (Fin 6),
      fund_allocations =
        [\<lparr>account_id = ''A'', allocation_type = fixed, allocation_value = Fin 5000\<rparr>],
      expense_account_ids = [''A''], excluded_tags = [], lookback_months = 6,
      calculation_method = mean, config_created_at = ''2026-01-01'',
      config_updated_at = ''2026-01-01''\<rparr>"

definition example_goal :: Goal where
  "example_goal =
     \<lparr>goal_id = ''goal-1'', name = ''Rainy day'', target_amount = Fin 24000,
      allocations = None, icon = ''*'', active = True\<rparr>"

definition goal_config :: EmergencyFundConfig where
  "goal_config = example_config\<lparr>linked_goal_id := Some ''goal-1'', target_months := None\<rparr>"

definition example_database :: database where
  "example_database =
     \<lparr>config_table = [],
      snapshots_table = [],
      account_balances = [(''A'', 10000), (''B'', 300)],
      transactions =
        [\<lparr>tx_account_id = ''A'', tx_amount = - 1500, tx_tags = Some [Some ''rent''],
          transaction_date = Date 2026 9 3\<rparr>,
         \<lparr>tx_account_id = ''A'', tx_amount = - 500, tx_tags = Some [Some ''food''],
          transaction_date = Date 2026 9 17\<rparr>,
         \<lparr>tx_account_id = ''A'', tx_amount = - 2000, tx_tags = Some [Some ''rent'', Some ''food''],
          transaction_date = Date 2026 10 5\<rparr>,
         \<lparr>tx_account_id = ''A'', tx_amount = 4000, tx_tags = None,
          transaction_date = Date 2026 10 6\<rparr>],
      months_ago = (\<lambda>n. Date 2026 5 3)\<rparr>"

definition example_view :: view where
  "example_view =
     \<lparr>config = None, goals = [example_goal], snapshots = [], runwayData = None,
      expenseBreakdown = [], autoTargetMonths = None, showSettings = False, showSetup = True,
      formLinkedGoalId = Some ''goal-1'', formTargetMonths = Fin 9,
      formTargetMonthsOverride = False,
      formFundAllocations = [], formExpenseAccountIds = [''A''], formExcludedTags = [],
      formLookbackMonths = 6, formCalculationMethod = mean, toasts = []\<rparr>"




definition capture_date :: date where
  "capture_date = Date 2026 11 3"

definition first_capture :: view where
  "first_capture = example_view\<lparr>runwayData := Some (runwayDataOf (Fin 5000) (Fin 1000) (Fin 6))\<rparr>"

definition second_capture :: view where
  "second_capture = example_view\<lparr>runwayData := Some (runwayDataOf (Fin 2500) (Fin 60) (Fin 6))\<rparr>"

definition after_first_capture :: database where
  "after_first_capture = snd (addSnapshot capture_date ''s-1'' ''t-1'' example_database first_capture)"

definition after_second_capture :: database where
  "after_second_capture =
     snd (addSnapshot capture_date ''s-2'' ''t-2'' after_first_capture second_capture)"

definition captured_row :: EmergencyFundSnapshot where
  "captured_row =
     \<lparr>snapshot_id = ''s-1'', snapshot_date = capture_date, fund_balance = 2500,
      monthly_expenses = 60, months_of_runway = 417 / 10, snapshot_notes = None,
      created_at = ''t-1''\<rparr>"





section \<open>Properties of the allocation resolver\<close>

lemmas number_ops =
  zero_number_def plus_number_def uminus_number_def minus_number_def times_number_def
  divide_number_def less_number_def less_eq_number_def

lemma find_balance_map_of: "find_balance rows k = map_of rows k"
  by (induction rows) auto

lemma add_allocation_rule:
  assumes "rule_of alloc = Some r"
  shows "add_allocation rows (Fin s) alloc = Fin (s + contribution (map_of rows) r)"
proof -
  obtain v where v: "allocation_value alloc = Fin v"
    using assms by (auto simp: rule_of_def split: number.splits)
  have bal: "or_zero (Number (find_balance rows (account_id alloc)))
               = Fin (balance_or_zero (map_of rows) (account_id alloc))"
    by (cases "map_of rows (account_id alloc)")
       (simp_all add: find_balance_map_of or_zero_def balance_or_zero_def)
  show ?thesis
  proof (cases "allocation_type alloc")
    case percentage
    then have "r = Percentage (account_id alloc) v"
      using assms v by (simp add: rule_of_def)
    then show ?thesis
      using percentage v bal by (simp add: add_allocation_def number_ops)
  next
    case fixed
    then have "r = Fixed (account_id alloc) v"
      using assms v by (simp add: rule_of_def)
    then show ?thesis
      using fixed v bal by (auto simp: add_allocation_def number_ops Math_min_def min_def)
  qed
qed

lemma foldl_add_allocation:
  "rules_of allocs = Some rules \<Longrightarrow>
   foldl (add_allocation rows) (Fin s) allocs
     = Fin (s + (\<Sum>r\<leftarrow>rules. contribution (map_of rows) r))"
proof (induction allocs arbitrary: s rules)
  case Nil
  then show ?case by simp
next
  case (Cons a as)
  from Cons.prems obtain r rs where r: "rule_of a = Some r"
    and rs: "rules_of as = Some rs" and rules: "rules = r # rs"
    by (auto split: option.splits)
  show ?case
    using Cons.IH [OF rs] add_allocation_rule [OF r] rules
    by (simp add: add.assoc)
qed

lemma fund_balance_of_rules:
  assumes "rules_of allocs = Some rules"
  shows "calculateFundBalanceFromAllocations allocs rows
           = Fin (\<Sum>r\<leftarrow>rules. contribution (map_of rows) r)"
proof (cases allocs)
  case Nil
  with assms show ?thesis
    by (simp add: calculateFundBalanceFromAllocations_def)
next
  case (Cons a as)
  with foldl_add_allocation [OF assms, of rows 0] show ?thesis
    by (simp add: calculateFundBalanceFromAllocations_def)
qed



section \<open>Properties of the runway evaluation\<close>

lemma num_mul_commute: "num_mul x y = num_mul y x"
  by (cases x; cases y) (simp_all add: mult.commute)





lemma runwayDataOf_fields:
  "monthsOfRunway (runwayDataOf b e m) = (if Fin 0 < e then b / e else Fin 0)"
  "targetMonths (runwayDataOf b e m) = m"
  "targetAmount (runwayDataOf b e m) = e * m"
  "status (runwayDataOf b e m)
     = statusOf (runwayPercent (monthsOfRunway (runwayDataOf b e m)) m)"
  by (simp_all add: runwayDataOf_def Let_def)

lemma resolveTarget_cases:
  "resolveTarget cfg gs override auto expenses =
     (if text_truthy (linked_goal_id cfg) \<and> find_goal gs (linked_goal_id cfg) \<noteq> None
         \<and> Fin 0 < expenses
      then (if \<not> override \<and> target_months cfg = None
            then target_amount (the (find_goal gs (linked_goal_id cfg))) / expenses
            else (case target_months cfg of None \<Rightarrow> Fin 6 | Some t \<Rightarrow> t),
            Some (target_amount (the (find_goal gs (linked_goal_id cfg))) / expenses))
      else (case target_months cfg of None \<Rightarrow> Fin 6 | Some t \<Rightarrow> t,
            if text_truthy (linked_goal_id cfg) then auto else None))"
  by (auto simp: resolveTarget_def Let_def split: option.splits)

lemma isFinite_ops:
  "isFinite x \<Longrightarrow> isFinite y \<Longrightarrow> isFinite (x * y)"
  "isFinite x \<Longrightarrow> isFinite y \<Longrightarrow> isFinite (x - y)"
  "isFinite x \<Longrightarrow> isFinite y \<Longrightarrow> Fin 0 < y \<Longrightarrow> isFinite (x / y)"
  "isFinite x \<Longrightarrow> isFinite y \<Longrightarrow> isFinite (Math_max x y)"
  by (cases x; cases y; simp add: number_ops Math_max_def)+

lemma resolveTarget_finite:
  assumes "isFinite expenses"
    and "\<forall>t. target_months cfg = Some t \<longrightarrow> isFinite t"
    and "\<forall>g\<in>set gs. isFinite (target_amount g)"
  shows "isFinite (fst (resolveTarget cfg gs override auto expenses))"
proof -
  have six: "isFinite (case target_months cfg of None \<Rightarrow> Fin 6 | Some t \<Rightarrow> t)"
    using assms(2) by (simp split: option.splits)
  have goal: "isFinite (target_amount (the (find_goal gs (linked_goal_id cfg))) / expenses)"
    if "find_goal gs (linked_goal_id cfg) \<noteq> None" and "Fin 0 < expenses"
  proof -
    from that(1) obtain g where g: "find_goal gs (linked_goal_id cfg) = Some g" by auto
    then have "g \<in> set gs"
      by (auto simp: find_goal_def find_Some_iff)
    with assms(3) have "isFinite (target_amount g)" by simp
    with g assms(1) that(2) show ?thesis by (simp add: isFinite_ops)
  qed
  show ?thesis
    unfolding resolveTarget_cases using six goal by auto
qed




text \<open>
  C3. When a goal is linked (and found), the monthly expenses are positive, the override
  flag is off and the configured target is null, the effective target in months is the
  goal's amount divided by the monthly expenses; in every other case it is the
  configured target (by default 6 where none is configured); and the target amount is
  always the target in months times the monthly expenses.
\<close>

theorem effective_target_months:
  assumes "evaluateRunway cfg gs override auto balance expenses = (r, auto')"
  shows "(text_truthy (linked_goal_id cfg) \<and> find_goal gs (linked_goal_id cfg) = Some goal
            \<and> Fin 0 < expenses \<and> \<not> override \<and> target_months cfg = None
          \<longrightarrow> targetMonths r = target_amount goal / expenses)
       \<and> (\<not> (text_truthy (linked_goal_id cfg) \<and> find_goal gs (linked_goal_id cfg) \<noteq> None
               \<and> Fin 0 < expenses \<and> \<not> override \<and> target_months cfg = None)
          \<longrightarrow> targetMonths r = (case target_months cfg of None \<Rightarrow> Fin 6 | Some t \<Rightarrow> t))
       \<and> targetAmount r = targetMonths r * expenses"
proof -
  obtain m a where ra: "resolveTarget cfg gs override auto expenses = (m, a)"
    by (cases "resolveTarget cfg gs override auto expenses")
  with assms have r: "r = runwayDataOf balance expenses m"
    by (simp add: evaluateRunway_def)
  have amount: "targetAmount r = targetMonths r * expenses"
    unfolding r by (simp add: runwayDataOf_fields times_number_def num_mul_commute)
  have m: "m = fst (resolveTarget cfg gs override auto expenses)"
    using ra by simp
  show ?thesis
    using amount unfolding r runwayDataOf_fields m resolveTarget_cases
    by auto
qed

theorem effective_target_months_witness:
  "(text_truthy (linked_goal_id goal_config)
      \<and> find_goal [example_goal] (linked_goal_id goal_config) = Some example_goal
      \<and> Fin 0 < Fin 2000 \<and> \<not> False \<and> target_months goal_config = None)
   \<and> targetMonths (fst (evaluateRunway goal_config [example_goal] False None (Fin 5000) (Fin 2000)))
       = Fin 12
   \<and> \<not> text_truthy (linked_goal_id example_config)
   \<and> targetMonths (fst (evaluateRunway example_config [] False None (Fin 5000) (Fin 2000)))
       = Fin 6
   \<and> targetAmount (fst (evaluateRunway example_config [] False None (Fin 5000) (Fin 2000)))
       = Fin 12000"
  using effective_target_months [of goal_config "[example_goal]" False None "Fin 5000" "Fin 2000"
      "fst (evaluateRunway goal_config [example_goal] False None (Fin 5000) (Fin 2000))"
      "snd (evaluateRunway goal_config [example_goal] False None (Fin 5000) (Fin 2000))"
      example_goal]
    effective_target_months [of example_config "[]" False None "Fin 5000" "Fin 2000"
      "fst (evaluateRunway example_config [] False None (Fin 5000) (Fin 2000))"
      "snd (evaluateRunway example_config [] False None (Fin 5000) (Fin 2000))"
      example_goal]
  by (simp add: goal_config_def example_config_def example_goal_def find_goal_def number_ops)

text \<open>
  C5. On finite inputs every division of the evaluation has a positive divisor: the
  months of runway are the fund balance over the monthly expenses when these are
  positive and 0 otherwise, the progress is 0 when the target amount is not positive,
  the runway percentage is 0 when the target in months is not positive, and every number
  of the result is finite (neither \<open>NaN\<close> nor an infinity).
\<close>

theorem division_hazards_resolve_to_zero:
  assumes "isFinite balance" and "isFinite expenses"
    and "\<forall>t. target_months cfg = Some t \<longrightarrow> isFinite t"
    and "\<forall>g\<in>set gs. isFinite (target_amount g)"
    and "evaluateRunway cfg gs override auto balance expenses = (r, auto')"
  shows "monthsOfRunway r = (if Fin 0 < expenses then balance / expenses else Fin 0)
       \<and> (targetAmount r \<le> Fin 0 \<longrightarrow> progressPercent r = Fin 0)
       \<and> (targetMonths r \<le> Fin 0 \<longrightarrow> runwayPercent (monthsOfRunway r) (targetMonths r) = Fin 0)
       \<and> isFinite (monthsOfRunway r) \<and> isFinite (targetMonths r) \<and> isFinite (targetAmount r)
       \<and> isFinite (progressPercent r) \<and> isFinite (remainingToTarget r)
       \<and> isFinite (runwayPercent (monthsOfRunway r) (targetMonths r))"
proof -
  obtain m a where ra: "resolveTarget cfg gs override auto expenses = (m, a)"
    by (cases "resolveTarget cfg gs override auto expenses")
  with assms(5) have r: "r = runwayDataOf balance expenses m"
    by (simp add: evaluateRunway_def)
  have "isFinite m"
    using resolveTarget_finite [OF assms(2-4), of override auto] ra by simp
  then obtain tm where tm: "m = Fin tm" by (cases m) simp_all
  obtain b where b: "balance = Fin b" using assms(1) by (cases balance) simp_all
  obtain e where e: "expenses = Fin e" using assms(2) by (cases expenses) simp_all
  show ?thesis
    unfolding r b e tm
    by (simp add: runwayDataOf_def Let_def runwayPercent_def number_ops Math_max_def)
qed

theorem division_hazards_resolve_to_zero_witness:
  "isFinite (Fin 5000) \<and> isFinite (Fin 0)
   \<and> target_months goal_config = None \<and> isFinite (target_amount example_goal)
   \<and> monthsOfRunway (fst (evaluateRunway goal_config [example_goal] False None (Fin 5000) (Fin 0)))
       = Fin 0
   \<and> targetAmount (fst (evaluateRunway goal_config [example_goal] False None (Fin 5000) (Fin 0)))
       \<le> Fin 0
   \<and> progressPercent (fst (evaluateRunway goal_config [example_goal] False None (Fin 5000) (Fin 0)))
       = Fin 0"
  using division_hazards_resolve_to_zero [of "Fin 5000" "Fin 0" goal_config "[example_goal]"
      False None
      "fst (evaluateRunway goal_config [example_goal] False None (Fin 5000) (Fin 0))"
      "snd (evaluateRunway goal_config [example_goal] False None (Fin 5000) (Fin 0))"]
  by (simp add: goal_config_def example_config_def example_goal_def number_ops Let_def
      evaluateRunway_def resolveTarget_def find_goal_def runwayDataOf_def)

subsection \<open>The evaluation inside \<^verbatim>\<open>calculateRunway\<close>\<close>

text \<open>
  When both queries are answered, \<^verbatim>\<open>calculateRunway\<close> stores the result of the
  evaluation; the monthly expenses it evaluates are finite, and so is the fund balance
  when the allocation values are.
\<close>

lemma sql_bind_Inr:
  "sql_bind m f = Inr y \<longleftrightarrow> (\<exists>x. m = Inr x \<and> f x = Inr y)"
  by (cases m) simp_all

lemma loadExpenseBreakdown_keeps:
  "runwayData (loadExpenseBreakdown db st) = runwayData st"
  "autoTargetMonths (loadExpenseBreakdown db st) = autoTargetMonths st"
  by (simp_all add: loadExpenseBreakdown_def split: option.splits sum.splits)

lemma calculateRunway_stores_evaluation:
  assumes "config st = Some cfg"
    and "getFundBalance db cfg (goals st) = Inr balance"
    and "getMonthlyExpenses db cfg = Inr expenses"
    and "evaluateRunway cfg (goals st) (formTargetMonthsOverride st) (autoTargetMonths st)
           balance expenses = (r, auto')"
  shows "runwayData (calculateRunway db st) = Some r"
    and "autoTargetMonths (calculateRunway db st) = auto'"
  using assms by (simp_all add: calculateRunway_def Let_def loadExpenseBreakdown_keeps)

lemma getMonthlyExpenses_finite:
  "getMonthlyExpenses db cfg = Inr expenses \<Longrightarrow> isFinite expenses"
  by (cases "monthly_avg (calculation_method cfg) (monthly_totals (expense_rows db cfg))")
     (auto simp: getMonthlyExpenses_def expenseQuery_def or_zero_def split: if_splits)

lemma getFundBalance_finite:
  assumes "getFundBalance db cfg gs = Inr balance"
    and "rules_of (allocationsToUse cfg gs) = Some rules"
  shows "isFinite balance"
proof -
  have "isFinite (calculateFundBalanceFromAllocations (allocationsToUse cfg gs) rows)" for rows
    using fund_balance_of_rules [OF assms(2), of rows] by simp
  with assms(1) show ?thesis
    by (auto simp: getFundBalance_def Let_def sql_bind_Inr split: if_splits)
qed

text \<open>
  C7. A goal is linked but the monthly expenses are 0: the evaluation leaves the view's
  \<^verbatim>\<open>autoTargetMonths\<close> as it was. After an evaluation with expenses of 2000 a month
  (the goal asks for 24000, so 12 months), an evaluation on a database without
  transactions gives expenses 0 and the default target of 6 months, and still holds the 12
  months of the earlier evaluation as the derived target.
\<close>

theorem auto_target_months_stays_after_zero_expenses:
  "(let st1 = calculateRunway example_database (example_view\<lparr>config := Some goal_config\<rparr>);
        st2 = calculateRunway (example_database\<lparr>transactions := []\<rparr>) st1
    in autoTargetMonths st1 = Some (Fin 12)
     \<and> map_option monthlyExpenses (runwayData st2) = Some (Fin 0)
     \<and> map_option targetMonths (runwayData st2) = Some (Fin 6)
     \<and> autoTargetMonths st2 = Some (Fin 12))"
  by code_simp

section \<open>Properties of the expense estimate\<close>










section \<open>Properties of the breakdown\<close>




















section \<open>Properties of the actions\<close>




lemma config_loadExpenseBreakdown [simp]:
  "config (loadExpenseBreakdown db st) = config st"
  by (simp add: loadExpenseBreakdown_def split: option.splits sum.splits)

lemma config_calculateRunway [simp]:
  "config (calculateRunway db st) = config st"
  by (simp add: calculateRunway_def Let_def split: option.splits sum.splits prod.splits)











lemma filter_key_singleton:
  "distinct (map key xs) \<Longrightarrow> x \<in> set xs \<Longrightarrow> filter (\<lambda>r. key r = key x) xs = [x]"
proof (induction xs)
  case Nil
  then show ?case by simp
next
  case (Cons y ys)
  show ?case
  proof (cases "x = y")
    case True
    have "key y \<notin> key ` set ys"
      using Cons.prems(1) by simp
    then have "\<forall>r\<in>set ys. key r \<noteq> key y"
      by (metis imageI)
    then have "filter (\<lambda>r. key r = key y) ys = []"
      by (simp add: filter_empty_conv)
    with True show ?thesis by simp
  next
    case False
    with Cons.prems have "x \<in> set ys" and "key y \<noteq> key x"
      by auto
    with Cons show ?thesis by simp
  qed
qed

lemma upsertSnapshot_Inr:
  assumes "upsertSnapshot today uuid now rd table = Inr table'"
  shows "\<exists>fb me mr. snapshot_values rd = Inr (fb, me, mr)
           \<and> table' =
               (if list_ex (\<lambda>r. snapshot_date r = today) table
                then map (\<lambda>r. if snapshot_date r = today
                           then r\<lparr>fund_balance := fb, monthly_expenses := me,
                                  months_of_runway := mr\<rparr>
                           else r) table
                else table @
                  [\<lparr>snapshot_id = uuid, snapshot_date = today, fund_balance = fb,
                    monthly_expenses = me, months_of_runway = mr, snapshot_notes = None,
                    created_at = now\<rparr>])"
  using assms
  by (auto simp: upsertSnapshot_def sql_bind_Inr split: if_splits)

lemma upsertSnapshot_dates:
  assumes "upsertSnapshot today uuid now rd table = Inr table'"
    and "distinct (map snapshot_date table)"
  shows "distinct (map snapshot_date table') \<and> today \<in> snapshot_date ` set table'"
proof -
  from upsertSnapshot_Inr [OF assms(1)] obtain fb me mr where
    t': "table' =
               (if list_ex (\<lambda>r. snapshot_date r = today) table
                then map (\<lambda>r. if snapshot_date r = today
                           then r\<lparr>fund_balance := fb, monthly_expenses := me,
                                  months_of_runway := mr\<rparr>
                           else r) table
                else table @
                  [\<lparr>snapshot_id = uuid, snapshot_date = today, fund_balance = fb,
                    monthly_expenses = me, months_of_runway = mr, snapshot_notes = None,
                    created_at = now\<rparr>])"
    by blast
  have upd: "list_ex (\<lambda>r. snapshot_date r = today) table \<Longrightarrow>
         table' = map (\<lambda>r. if snapshot_date r = today
                           then r\<lparr>fund_balance := fb, monthly_expenses := me,
                                  months_of_runway := mr\<rparr>
                           else r) table"
    and ins: "\<not> list_ex (\<lambda>r. snapshot_date r = today) table \<Longrightarrow>
         table' = table @
              [\<lparr>snapshot_id = uuid, snapshot_date = today, fund_balance = fb,
                monthly_expenses = me, months_of_runway = mr, snapshot_notes = None,
                created_at = now\<rparr>]"
    using t' by simp_all
  show ?thesis
  proof (cases "list_ex (\<lambda>r. snapshot_date r = today) table")
    case True
    have "map snapshot_date table' = map snapshot_date table"
      unfolding upd [OF True] by simp
    moreover from True have "today \<in> snapshot_date ` set table"
      by (auto simp: list_ex_iff)
    ultimately show ?thesis
      using assms(2) by (metis set_map)
  next
    case False
    then have "today \<notin> snapshot_date ` set table"
      by (auto simp: list_ex_iff)
    then show ?thesis
      unfolding ins [OF False] using assms(2) by simp
  qed
qed

lemma snapshots_table_addSnapshot:
  "runwayData st = Some rd \<Longrightarrow> upsertSnapshot today uuid now rd (snapshots_table db) = Inr table
     \<Longrightarrow> snapshots_table (snd (addSnapshot today uuid now db st)) = table"
  by (simp add: addSnapshot_def Let_def)

text \<open>
  C8. Two snapshots taken on the same date, both accepted by the database (the snapshot
  dates of the table being distinct, as its uniqueness constraint demands): after the
  second, the table holds exactly one row of that date; it is the row the first left,
  with the same id, creation time and notes, and with the three numbers of the second
  call as the decimal columns store them, that is rounded to two, two and one decimals.
  The rows of other dates are untouched.
\<close>

theorem second_snapshot_overwrites_first:
  assumes "distinct (map snapshot_date (snapshots_table db))"
    and "runwayData st = Some rd1"
    and "upsertSnapshot today uuid1 now1 rd1 (snapshots_table db) = Inr table1"
    and "db1 = snd (addSnapshot today uuid1 now1 db st)"
    and "runwayData st' = Some rd2"
    and "upsertSnapshot today uuid2 now2 rd2 (snapshots_table db1) = Inr table2"
    and "db2 = snd (addSnapshot today uuid2 now2 db1 st')"
  shows "\<exists>row fb me mr.
           snapshot_values rd2 = Inr (fb, me, mr)
         \<and> filter (\<lambda>r. snapshot_date r = today) (snapshots_table db1) = [row]
         \<and> filter (\<lambda>r. snapshot_date r = today) (snapshots_table db2)
             = [row\<lparr>fund_balance := fb, monthly_expenses := me, months_of_runway := mr\<rparr>]
         \<and> filter (\<lambda>r. snapshot_date r \<noteq> today) (snapshots_table db2)
             = filter (\<lambda>r. snapshot_date r \<noteq> today) (snapshots_table db1)"
proof -
  have t1: "snapshots_table db1 = table1"
    unfolding assms(4) using assms(2,3) by (rule snapshots_table_addSnapshot)
  have t2: "snapshots_table db2 = table2"
    unfolding assms(7) using assms(5,6) by (rule snapshots_table_addSnapshot)
  from upsertSnapshot_dates [OF assms(3,1)]
  have d1: "distinct (map snapshot_date table1)" and "today \<in> snapshot_date ` set table1"
    by simp_all
  then obtain row where row: "row \<in> set table1" "snapshot_date row = today"
    by auto
  have f1: "filter (\<lambda>r. snapshot_date r = today) table1 = [row]"
    using filter_key_singleton [OF d1 row(1)] row(2) by simp
  have ex: "list_ex (\<lambda>r. snapshot_date r = today) table1"
    using row by (auto simp: list_ex_iff)
  from upsertSnapshot_Inr [OF assms(6) [unfolded t1]] obtain fb me mr where
    v: "snapshot_values rd2 = Inr (fb, me, mr)"
    and t': "table2 =
               (if list_ex (\<lambda>r. snapshot_date r = today) table1
                then map (\<lambda>r. if snapshot_date r = today
                           then r\<lparr>fund_balance := fb, monthly_expenses := me,
                                  months_of_runway := mr\<rparr>
                           else r) table1
                else table1 @
                  [\<lparr>snapshot_id = uuid2, snapshot_date = today, fund_balance = fb,
                    monthly_expenses = me, months_of_runway = mr, snapshot_notes = None,
                    created_at = now2\<rparr>])"
    by blast
  have upd: "table2 = map (\<lambda>r. if snapshot_date r = today
                           then r\<lparr>fund_balance := fb, monthly_expenses := me,
                                  months_of_runway := mr\<rparr>
                           else r) table1"
    using t' ex by simp
  have f2: "filter (\<lambda>r. snapshot_date r = today) table2
          = map (\<lambda>r. r\<lparr>fund_balance := fb, monthly_expenses := me, months_of_runway := mr\<rparr>)
              (filter (\<lambda>r. snapshot_date r = today) table1)"
    unfolding upd by (induction table1) auto
  have f3: "filter (\<lambda>r. snapshot_date r \<noteq> today) table2
          = filter (\<lambda>r. snapshot_date r \<noteq> today) table1"
    unfolding upd by (induction table1) auto
  show ?thesis
    unfolding t1 t2 using v f1 f2 f3 by auto
qed


lemma snapshot_values_first:
  "snapshot_values (runwayDataOf (Fin 5000) (Fin 1000) (Fin 6)) = Inr (5000, 1000, 5)"
  by (simp add: snapshot_values_def runwayDataOf_def Let_def number_ops cast_decimal_def
      round_half_away_def)

lemma snapshot_values_second:
  "snapshot_values (runwayDataOf (Fin 2500) (Fin 60) (Fin 6)) = Inr (2500, 60, 417 / 10)"
  by (simp add: snapshot_values_def runwayDataOf_def Let_def number_ops cast_decimal_def
      round_half_away_def)

lemma after_first_capture_table:
  "snapshots_table after_first_capture
     = [\<lparr>snapshot_id = ''s-1'', snapshot_date = capture_date, fund_balance = 5000,
         monthly_expenses = 1000, months_of_runway = 5, snapshot_notes = None,
         created_at = ''t-1''\<rparr>]"
  by (simp add: after_first_capture_def addSnapshot_def first_capture_def upsertSnapshot_def
      snapshot_values_first example_database_def Let_def)

lemma after_second_capture_table:
  "snapshots_table after_second_capture = [captured_row]"
  by (simp add: after_second_capture_def addSnapshot_def second_capture_def upsertSnapshot_def
      snapshot_values_second after_first_capture_table Let_def captured_row_def)

text \<open>
  The row does not carry the number of the second call itself: a runway of \<open>2500 / 60\<close>
  months is stored as \<open>41.7\<close>.
\<close>

theorem second_snapshot_is_rounded_counterexample:
  "snapshots_table after_second_capture = [captured_row]
   \<and> map_option monthsOfRunway (runwayData second_capture) = Some (Fin (125 / 3))
   \<and> Fin (months_of_runway captured_row) \<noteq> Fin (125 / 3)"
  by (simp add: after_second_capture_table second_capture_def runwayDataOf_def Let_def
      number_ops captured_row_def)


theorem second_snapshot_overwrites_first_witness:
  "distinct (map snapshot_date (snapshots_table example_database))
   \<and> snapshot_values (runwayDataOf (Fin 2500) (Fin 60) (Fin 6)) = Inr (2500, 60, 417 / 10)
   \<and> length (filter (\<lambda>r. snapshot_date r = capture_date) (snapshots_table after_second_capture)) = 1
   \<and> snapshots_table after_second_capture = [captured_row]"
proof -
  have a: "distinct (map snapshot_date (snapshots_table example_database))"
    by (simp add: example_database_def)
  have b: "runwayData first_capture = Some (runwayDataOf (Fin 5000) (Fin 1000) (Fin 6))"
    by (simp add: first_capture_def)
  have c: "upsertSnapshot capture_date ''s-1'' ''t-1'' (runwayDataOf (Fin 5000) (Fin 1000) (Fin 6))
             (snapshots_table example_database) = Inr (snapshots_table after_first_capture)"
    by (simp add: after_first_capture_table upsertSnapshot_def snapshot_values_first
        example_database_def)
  have d: "runwayData second_capture = Some (runwayDataOf (Fin 2500) (Fin 60) (Fin 6))"
    by (simp add: second_capture_def)
  have e: "upsertSnapshot capture_date ''s-2'' ''t-2'' (runwayDataOf (Fin 2500) (Fin 60) (Fin 6))
             (snapshots_table after_first_capture) = Inr (snapshots_table after_second_capture)"
    by (simp add: after_first_capture_table after_second_capture_table upsertSnapshot_def
        snapshot_values_second captured_row_def)
  from second_snapshot_overwrites_first
    [OF a b c after_first_capture_def d e after_second_capture_def]
  have "length (filter (\<lambda>r. snapshot_date r = capture_date)
          (snapshots_table after_second_capture)) = 1"
    by auto
  then show ?thesis
    using a snapshot_values_second after_second_capture_table by simp
qed

text \<open>
  C10. The quick exclusion of the tag \<open>Untagged\<close>, and any quick exclusion while no
  configuration is loaded, returns at once: the database and the whole state of the view
  are as before.
\<close>

theorem quick_exclude_untagged_changes_nothing:
  "quickExcludeTag now ''Untagged'' db st = (st, db)
   \<and> (config st = None \<longrightarrow> quickExcludeTag now t db st = (st, db))"
  by (simp add: quickExcludeTag_def split: option.splits)

theorem quick_exclude_untagged_changes_nothing_witness:
  "config example_view = None
   \<and> quickExcludeTag ''2026-11-03'' ''rent'' example_database example_view
       = (example_view, example_database)
   \<and> quickExcludeTag ''2026-11-03'' ''Untagged'' example_database
        (example_view\<lparr>config := Some example_config\<rparr>)
       = (example_view\<lparr>config := Some example_config\<rparr>, example_database)"
  using quick_exclude_untagged_changes_nothing [of "''2026-11-03''" example_database example_view "''rent''"]
    quick_exclude_untagged_changes_nothing [of "''2026-11-03''" example_database
      "example_view\<lparr>config := Some example_config\<rparr>" "''rent''"]
  by (simp add: example_view_def)

end
